theory Spec2Isabelle
  imports Main
begin

section \<open>Data model\<close>

text \<open>
  The service of \<^verbatim>\<open>lanchain_chotbot.py\<close> (class \<^verbatim>\<open>RAGServiceModern\<close>) and the
  \<^verbatim>\<open>/ask\<close> handler of \<^verbatim>\<open>app.py\<close>, as state-passing functions.

  A Python \<^verbatim>\<open>str\<close> is the list of its Unicode code points, each a natural number; a
  string literal of the source is written \<open>lit ''...''\<close>. The keys of the dictionaries
  are literals of the source and stay \<open>string\<close>s.
  A raised exception is the text \<^verbatim>\<open>str(e)\<close> that the handlers put into their messages;
  a call that may raise returns \<open>exn + 'a\<close>, with \<open>Inl\<close> the exception.
\<close>

type_synonym pystr = "nat list"

definition lit :: "string \<Rightarrow> pystr" where
  "lit s = map of_char s"

type_synonym exn = pystr

text \<open>The values stored in the dictionaries the service returns (\<^verbatim>\<open>Dict[str, Any]\<close>).\<close>

datatype pyval = PyStr pystr | PyInt nat | PyBool bool

type_synonym dict = "(string \<times> pyval) list"

text \<open>A loaded page: \<^verbatim>\<open>Document(page_content, metadata)\<close>.\<close>

record document =
  page_content :: pystr
  metadata :: dict

text \<open>The messages of a chat history and of a prompt; \<^verbatim>\<open>msg.type\<close> and \<^verbatim>\<open>msg.content\<close>.\<close>

datatype message = SystemMessage pystr | HumanMessage pystr | AIMessage pystr

fun msg_type :: "message \<Rightarrow> pystr" where
  "msg_type (SystemMessage c) = lit ''system''"
| "msg_type (HumanMessage c) = lit ''human''"
| "msg_type (AIMessage c) = lit ''ai''"

fun content :: "message \<Rightarrow> pystr" where
  "content (SystemMessage c) = c"
| "content (HumanMessage c) = c"
| "content (AIMessage c) = c"

text \<open>
  A FAISS store is the documents it indexes and the name of the embedding model that
  indexed them; how it ranks is the environment's \<open>similarity_search\<close>.
\<close>

record vector_store =
  documents :: "document list"
  embedding :: pystr

text \<open>\<^verbatim>\<open>vectorstore.as_retriever(search_kwargs={"k": k})\<close>.\<close>

record retriever_t =
  store :: vector_store
  search_k :: nat

definition as_retriever :: "vector_store \<Rightarrow> nat \<Rightarrow> retriever_t" where
  "as_retriever vs k = \<lparr>store = vs, search_k = k\<rparr>"

text \<open>
  The LCEL pipeline built by \<^verbatim>\<open>_create_rag_chain\<close>. The only value it captures when it
  is built is the retriever of that moment; the prompt template is fixed, and the
  history and the backend are read from the service when the chain is invoked.
\<close>

datatype chain = RagChain (chain_retriever: retriever_t)

text \<open>
  What the external collaborators answer during one call of an operation: the
  embedding model's loader, the PDF loader, FAISS (building, saving, loading,
  searching), the generation backend and the file system. Every theorem below that
  has an environment variable holds for every such environment.
\<close>

record env =
  embeddings :: "pystr \<Rightarrow> exn + unit"
  load_pdf :: "pystr \<Rightarrow> exn + document list"
  from_documents :: "document list \<Rightarrow> pystr \<Rightarrow> exn + vector_store"
  save_local :: "vector_store \<Rightarrow> pystr \<Rightarrow> exn + unit"
  load_local :: "pystr \<Rightarrow> pystr \<Rightarrow> exn + vector_store"
  similarity_search :: "vector_store \<Rightarrow> pystr \<Rightarrow> nat \<Rightarrow> exn + document list"
  generate :: "message list \<Rightarrow> exn + pystr"
  path_exists :: "pystr \<Rightarrow> bool"
  makedirs :: "pystr \<Rightarrow> exn + unit"
  rmtree :: "pystr \<Rightarrow> exn + unit"
  remove :: "pystr \<Rightarrow> exn + unit"

text \<open>
  The fields of \<^verbatim>\<open>RAGServiceModern\<close>. The backend object \<^verbatim>\<open>self.llm\<close> is represented by
  the prompts it has been invoked with, oldest first, so that an invocation is visible
  in the state.
\<close>

record rag_service =
  vector_db_path :: pystr
  embedding_model :: pystr
  llm :: "message list list"
  vectorstore :: "vector_store option"
  retriever :: "retriever_t option"
  chat_history :: "message list"
  rag_chain :: "chain option"

section \<open>The service\<close>

text \<open>
  \<^verbatim>\<open>__init__\<close>: the embedding model is loaded, every optional field is \<^verbatim>\<open>None\<close> and
  the history is empty; the storage directory is created when it is missing. A failure
  of the loader or of \<^verbatim>\<open>os.makedirs\<close> leaves no service.
\<close>

definition new_service :: "pystr \<Rightarrow> pystr \<Rightarrow> rag_service" where
  "new_service path model =
     \<lparr>vector_db_path = path, embedding_model = model, llm = [],
      vectorstore = None, retriever = None, chat_history = [], rag_chain = None\<rparr>"

definition RAGServiceModern :: "env \<Rightarrow> pystr \<Rightarrow> pystr \<Rightarrow> exn + rag_service" where
  "RAGServiceModern e path model =
     (case embeddings e model of
        Inl x \<Rightarrow> Inl x
      | Inr _ \<Rightarrow>
          if \<not> path_exists e path then
            (case makedirs e path of
               Inl x \<Rightarrow> Inl x
             | Inr _ \<Rightarrow> Inr (new_service path model))
          else Inr (new_service path model))"

definition error_result :: "pystr \<Rightarrow> dict" where
  "error_result msg = [(''status'', PyStr (lit ''error'')), (''message'', PyStr msg)]"

definition success_result :: "pystr \<Rightarrow> dict" where
  "success_result msg = [(''status'', PyStr (lit ''success'')), (''message'', PyStr msg)]"

text \<open>\<^verbatim>\<open>str(n)\<close> for a length, as the f-string of \<^verbatim>\<open>process_pdf\<close> prints it.\<close>

definition digit_char :: "nat \<Rightarrow> nat" where
  "digit_char d = 48 + d"

function str_nat :: "nat \<Rightarrow> pystr" where
  "str_nat n = (if n < 10 then [digit_char n] else str_nat (n div 10) @ [digit_char (n mod 10)])"
  by pat_completeness auto
termination
  by (relation "measure id") auto

declare str_nat.simps [simp del]

text \<open>\<^verbatim>\<open>sep.join(parts)\<close>.\<close>

fun join :: "pystr \<Rightarrow> pystr list \<Rightarrow> pystr" where
  "join sep [] = []"
| "join sep [x] = x"
| "join sep (x # y # ys) = x @ sep @ join sep (y # ys)"

definition format_docs :: "document list \<Rightarrow> pystr" where
  "format_docs docs = join [0x0A, 0x0A] (map page_content docs)"

text \<open>
  The system message of the prompt template, up to the place of \<^verbatim>\<open>{context}\<close>
  (\<open>0x0A\<close> is the newline, \<open>0x27\<close> the apostrophe).
\<close>

definition system_template :: pystr where
  "system_template =
     lit ''You are a helpful assistant that answers questions based on the provided context. '' @ [0x0A] @
     lit ''Use the following pieces of context to answer the question. '' @ [0x0A] @
     lit ''If you don'' @ [0x27] @ lit ''t know the answer based on the context, say so - don'' @ [0x27] @
     lit ''t make up information.'' @ [0x0A, 0x0A] @
     lit ''Context: ''"

text \<open>
  The prompt: the system message with the context, the messages of the history, then
  the question as a human message.
\<close>

definition format_messages :: "pystr \<Rightarrow> message list \<Rightarrow> pystr \<Rightarrow> message list" where
  "format_messages context history question =
     [SystemMessage (system_template @ context)] @ history @ [HumanMessage question]"

definition create_rag_chain :: "rag_service \<Rightarrow> rag_service" where
  "create_rag_chain self =
     (case retriever self of
        None \<Rightarrow> self
      | Some r \<Rightarrow> self\<lparr>rag_chain := Some (RagChain r)\<rparr>)"

text \<open>
  \<^verbatim>\<open>self.rag_chain.invoke(question)\<close>: the retriever is queried with the question, the
  documents are formatted, the prompt is assembled with the history as it is now, and
  the backend is invoked with it. An exception of the retriever ends the call before the
  backend is reached.
\<close>

definition invoke :: "env \<Rightarrow> chain \<Rightarrow> pystr \<Rightarrow> rag_service \<Rightarrow> (exn + pystr) \<times> rag_service" where
  "invoke e ch question self =
     (case similarity_search e (store (chain_retriever ch)) question (search_k (chain_retriever ch)) of
        Inl x \<Rightarrow> (Inl x, self)
      | Inr docs \<Rightarrow>
          (let prompt = format_messages (format_docs docs) (chat_history self) question
           in (generate e prompt, self\<lparr>llm := llm self @ [prompt]\<rparr>)))"

definition add_user_message :: "pystr \<Rightarrow> rag_service \<Rightarrow> rag_service" where
  "add_user_message m self = self\<lparr>chat_history := chat_history self @ [HumanMessage m]\<rparr>"

definition add_ai_message :: "pystr \<Rightarrow> rag_service \<Rightarrow> rag_service" where
  "add_ai_message m self = self\<lparr>chat_history := chat_history self @ [AIMessage m]\<rparr>"

definition process_pdf :: "env \<Rightarrow> pystr \<Rightarrow> rag_service \<Rightarrow> dict \<times> rag_service" where
  "process_pdf e pdf_path self =
     (case load_pdf e pdf_path of
        Inl x \<Rightarrow> (error_result (lit ''Error processing PDF: '' @ x), self)
      | Inr docs \<Rightarrow>
          (case from_documents e docs (embedding_model self) of
             Inl x \<Rightarrow> (error_result (lit ''Error processing PDF: '' @ x), self)
           | Inr vs \<Rightarrow>
               (let self1 = self\<lparr>vectorstore := Some vs\<rparr> in
                case save_local e vs (vector_db_path self1) of
                  Inl x \<Rightarrow> (error_result (lit ''Error processing PDF: '' @ x), self1)
                | Inr _ \<Rightarrow>
                    (let self2 = self1\<lparr>retriever := Some (as_retriever vs 3)\<rparr>;
                         self3 = create_rag_chain self2
                     in ([(''status'', PyStr (lit ''success'')),
                          (''message'', PyStr (lit ''PDF processed successfully. Loaded '' @
                              str_nat (length docs) @ lit '' pages.'')),
                          (''num_documents'', PyInt (length docs))], self3)))))"

definition load_existing_vectorstore :: "env \<Rightarrow> rag_service \<Rightarrow> dict \<times> rag_service" where
  "load_existing_vectorstore e self =
     (if \<not> path_exists e (vector_db_path self) then
        (error_result (lit ''No existing vector store found''), self)
      else
        (case load_local e (vector_db_path self) (embedding_model self) of
           Inl x \<Rightarrow> (error_result (lit ''Error loading vector store: '' @ x), self)
         | Inr vs \<Rightarrow>
             (let self1 = self\<lparr>vectorstore := Some vs\<rparr>;
                  self2 = self1\<lparr>retriever := Some (as_retriever vs 3)\<rparr>;
                  self3 = create_rag_chain self2
              in (success_result (lit ''Vector store loaded successfully''), self3))))"

definition ask_question :: "env \<Rightarrow> pystr \<Rightarrow> rag_service \<Rightarrow> dict \<times> rag_service" where
  "ask_question e question self =
     (case rag_chain self of
        None \<Rightarrow> (error_result (lit ''Please upload and process a PDF first''), self)
      | Some ch \<Rightarrow>
          (case invoke e ch question self of
             (Inl x, self1) \<Rightarrow> (error_result (lit ''Error processing question: '' @ x), self1)
           | (Inr answer, self1) \<Rightarrow>
               (let self2 = add_user_message question self1;
                    self3 = add_ai_message answer self2
                in ([(''status'', PyStr (lit ''success'')),
                     (''question'', PyStr question),
                     (''answer'', PyStr answer)], self3))))"

definition get_chat_history :: "rag_service \<Rightarrow> dict list" where
  "get_chat_history self =
     map (\<lambda>msg. [(''type'', PyStr (msg_type msg)), (''content'', PyStr (content msg))])
       (chat_history self)"

definition clear_session :: "env \<Rightarrow> rag_service \<Rightarrow> dict \<times> rag_service" where
  "clear_session e self =
     (let self1 = self\<lparr>chat_history := []\<rparr>;
          self2 = self1\<lparr>retriever := None\<rparr>;
          self3 = self2\<lparr>vectorstore := None\<rparr>;
          self4 = self3\<lparr>rag_chain := None\<rparr>
      in if path_exists e (vector_db_path self4) then
           (case rmtree e (vector_db_path self4) of
              Inl x \<Rightarrow> (error_result (lit ''Error clearing session: '' @ x), self4)
            | Inr _ \<Rightarrow>
                (case makedirs e (vector_db_path self4) of
                   Inl x \<Rightarrow> (error_result (lit ''Error clearing session: '' @ x), self4)
                 | Inr _ \<Rightarrow> (success_result (lit ''Session cleared successfully''), self4)))
         else (success_result (lit ''Session cleared successfully''), self4))"

definition delete_pdf :: "env \<Rightarrow> pystr \<Rightarrow> rag_service \<Rightarrow> dict \<times> rag_service" where
  "delete_pdf e pdf_path self =
     (if path_exists e pdf_path then
        (case remove e pdf_path of
           Inl x \<Rightarrow> (error_result (lit ''Error deleting PDF: '' @ x), self)
         | Inr _ \<Rightarrow> (success_result (lit ''PDF deleted successfully''), self))
      else ([(''status'', PyStr (lit ''warning'')), (''message'', PyStr (lit ''PDF file not found''))], self))"

definition get_status :: "rag_service \<Rightarrow> dict" where
  "get_status self =
     [(''vectorstore_loaded'', PyBool (vectorstore self \<noteq> None)),
      (''retriever_ready'', PyBool (retriever self \<noteq> None)),
      (''qa_chain_ready'', PyBool (rag_chain self \<noteq> None)),
      (''chat_history_length'', PyInt (length (chat_history self)))]"

section \<open>The /ask handler\<close>

text \<open>
  \<^verbatim>\<open>str.isspace\<close> of one code point: the white space that \<^verbatim>\<open>str.strip()\<close> removes, over
  all of Unicode, and \<^verbatim>\<open>str.strip()\<close> itself.
\<close>

definition isspace :: "nat \<Rightarrow> bool" where
  "isspace n =
     ((0x09 \<le> n \<and> n \<le> 0x0D) \<or> (0x1C \<le> n \<and> n \<le> 0x20) \<or> n = 0x85 \<or> n = 0xA0 \<or>
      n = 0x1680 \<or> (0x2000 \<le> n \<and> n \<le> 0x200A) \<or> n = 0x2028 \<or> n = 0x2029 \<or>
      n = 0x202F \<or> n = 0x205F \<or> n = 0x3000)"

definition strip :: "pystr \<Rightarrow> pystr" where
  "strip s = rev (dropWhile isspace (rev (dropWhile isspace s)))"

text \<open>
  The request body \<^verbatim>\<open>QuestionRequest\<close>, whose field is declared
  \<^verbatim>\<open>question: str = Field(..., min_length=1)\<close>: a question of fewer than one code point
  does not validate, and there is no request.
\<close>

record QuestionRequest =
  request_question :: pystr

definition parse_QuestionRequest :: "pystr \<Rightarrow> QuestionRequest option" where
  "parse_QuestionRequest q =
     (if length q < 1 then None else Some \<lparr>request_question = q\<rparr>)"

text \<open>
  What a call of \<^verbatim>\<open>POST /ask\<close> gives back: the framework's answer to a body that does
  not validate, a raised \<^verbatim>\<open>HTTPException(status_code, detail)\<close>, a
  \<^verbatim>\<open>QuestionResponse(status, question, answer)\<close>, or an exception nobody catches; and the
  HTTP status the framework sends for each (422, the exception's code, 200, 500).
\<close>

datatype response =
    RequestValidationError
  | HTTPException nat pyval
  | QuestionResponse pystr pystr pystr
  | Unhandled exn

fun status_code :: "response \<Rightarrow> nat" where
  "status_code RequestValidationError = 422"
| "status_code (HTTPException code detail) = code"
| "status_code (QuestionResponse s q a) = 200"
| "status_code (Unhandled x) = 500"

text \<open>\<^verbatim>\<open>d[k]\<close>, a \<^verbatim>\<open>KeyError\<close> when the key is missing.\<close>

definition getitem :: "dict \<Rightarrow> string \<Rightarrow> exn + pyval" where
  "getitem d k = (case map_of d k of None \<Rightarrow> Inl (lit (''KeyError: '' @ k)) | Some v \<Rightarrow> Inr v)"

text \<open>
  \<^verbatim>\<open>ask_question(request)\<close> of \<^verbatim>\<open>app.py\<close>, on the module's service \<open>svc\<close>. The response
  model takes strings only.
\<close>

definition app_ask_question :: "env \<Rightarrow> QuestionRequest \<Rightarrow> rag_service \<Rightarrow> response \<times> rag_service" where
  "app_ask_question e request svc =
     (if request_question request = [] \<or> strip (request_question request) = [] then
        (HTTPException 400 (PyStr (lit ''Question cannot be empty'')), svc)
      else
        (case ask_question e (request_question request) svc of
           (result, svc1) \<Rightarrow>
             (case getitem result ''status'' of
                Inl x \<Rightarrow> (Unhandled x, svc1)
              | Inr st \<Rightarrow>
                  if st = PyStr (lit ''error'') then
                    (case getitem result ''message'' of
                       Inl x \<Rightarrow> (Unhandled x, svc1)
                     | Inr m \<Rightarrow> (HTTPException 400 m, svc1))
                  else
                    (case (st, getitem result ''question'', getitem result ''answer'') of
                       (PyStr s, Inr (PyStr q), Inr (PyStr a)) \<Rightarrow> (QuestionResponse s q a, svc1)
                     | (_, Inl x, _) \<Rightarrow> (Unhandled x, svc1)
                     | (_, _, Inl x) \<Rightarrow> (Unhandled x, svc1)
                     | _ \<Rightarrow> (Unhandled (lit ''ValidationError''), svc1)))))"

text \<open>
  The route \<^verbatim>\<open>@app.post("/ask")\<close>: the body is validated first, and the handler runs
  only on a request that validates.
\<close>

definition post_ask :: "env \<Rightarrow> pystr \<Rightarrow> rag_service \<Rightarrow> response \<times> rag_service" where
  "post_ask e q svc =
     (case parse_QuestionRequest q of
        None \<Rightarrow> (RequestValidationError, svc)
      | Some request \<Rightarrow> app_ask_question e request svc)"

section \<open>Sequences of calls\<close>

text \<open>
  The public methods of the service. A session is a list of calls, each with the
  environment it runs in, so the collaborators may answer differently every time.
\<close>

datatype call =
    ProcessPdf pystr
  | LoadExistingVectorstore
  | AskQuestion pystr
  | GetChatHistory
  | ClearSession
  | DeletePdf pystr
  | GetStatus

fun exec :: "env \<Rightarrow> call \<Rightarrow> rag_service \<Rightarrow> rag_service" where
  "exec e (ProcessPdf p) self = snd (process_pdf e p self)"
| "exec e LoadExistingVectorstore self = snd (load_existing_vectorstore e self)"
| "exec e (AskQuestion q) self = snd (ask_question e q self)"
| "exec e GetChatHistory self = self"
| "exec e ClearSession self = snd (clear_session e self)"
| "exec e (DeletePdf p) self = snd (delete_pdf e p self)"
| "exec e GetStatus self = self"

fun run :: "(env \<times> call) list \<Rightarrow> rag_service \<Rightarrow> rag_service" where
  "run [] self = self"
| "run ((e, c) # cs) self = run cs (exec e c self)"

text \<open>A history of complete exchanges: a human message, then the assistant's, and so on.\<close>

fun paired :: "message list \<Rightarrow> bool" where
  "paired [] = True"
| "paired (HumanMessage q # AIMessage a # rest) = paired rest"
| "paired _ = False"

text \<open>The index and the pipeline are both there or both missing.\<close>

definition index_iff_pipeline :: "rag_service \<Rightarrow> bool" where
  "index_iff_pipeline self = ((rag_chain self \<noteq> None) = (vectorstore self \<noteq> None))"

text \<open>Every retriever the service holds, and the one inside its chain, asks for three documents.\<close>

definition top3 :: "rag_service \<Rightarrow> bool" where
  "top3 self =
     ((case retriever self of None \<Rightarrow> True | Some r \<Rightarrow> search_k r = 3) \<and>
      (case rag_chain self of None \<Rightarrow> True | Some ch \<Rightarrow> search_k (chain_retriever ch) = 3))"

section \<open>Concrete environments\<close>

text \<open>
  A four-page document and environments to run the model on: one where every
  collaborator works, one where the backend is down, one where the index cannot be saved.
\<close>

definition four_pages :: "document list" where
  "four_pages =
     [\<lparr>page_content = lit ''Alpha'', metadata = [(''page'', PyInt 0)]\<rparr>,
      \<lparr>page_content = lit ''Beta'', metadata = [(''page'', PyInt 1)]\<rparr>,
      \<lparr>page_content = lit ''Gamma'', metadata = [(''page'', PyInt 2)]\<rparr>,
      \<lparr>page_content = lit ''Delta'', metadata = [(''page'', PyInt 3)]\<rparr>]"

definition working_env :: env where
  "working_env =
     \<lparr>embeddings = (\<lambda>m. Inr ()),
      load_pdf = (\<lambda>p. Inr four_pages),
      from_documents = (\<lambda>ds m. Inr \<lparr>documents = ds, embedding = m\<rparr>),
      save_local = (\<lambda>vs p. Inr ()),
      load_local = (\<lambda>p m. Inr \<lparr>documents = four_pages, embedding = m\<rparr>),
      similarity_search = (\<lambda>vs q k. Inr (take k (documents vs))),
      generate = (\<lambda>prompt. Inr (lit ''It is about letters.'')),
      path_exists = (\<lambda>p. True),
      makedirs = (\<lambda>p. Inr ()),
      rmtree = (\<lambda>p. Inr ()),
      remove = (\<lambda>p. Inr ())\<rparr>"

definition backend_down_env :: env where
  "backend_down_env = working_env\<lparr>generate := (\<lambda>prompt. Inl (lit ''Connection refused''))\<rparr>"

definition unwritable_env :: env where
  "unwritable_env = working_env\<lparr>save_local := (\<lambda>vs p. Inl (lit ''Permission denied''))\<rparr>"

text \<open>The service as \<^verbatim>\<open>app.py\<close> creates it, and the same after one document is ingested.\<close>

definition fresh_service :: rag_service where
  "fresh_service = new_service (lit ''vector_db'') (lit ''sentence-transformers/all-MiniLM-L6-v2'')"

definition ready_service :: rag_service where
  "ready_service = snd (process_pdf working_env (lit ''uploaded_pdfs/doc.pdf'') fresh_service)"

section \<open>Basic facts\<close>

subsection \<open>Literals\<close>

lemma lit_eq_iff [simp]: "lit a = lit b \<longleftrightarrow> a = b"
  by (simp add: lit_def inj_map_eq_map inj_of_char)

lemma lit_Nil [simp]: "lit [] = []"
  by (simp add: lit_def)

lemma lit_eq_Nil [simp]: "lit s = [] \<longleftrightarrow> s = []"
  by (simp add: lit_def)

text \<open>Two literals written one after the other are the literal of the whole text.\<close>

lemma lit_append [simp]: "lit a @ lit b = lit (a @ b)"
  by (simp add: lit_def)

lemma lit_append_more [simp]: "lit a @ lit b @ xs = lit (a @ b) @ xs"
  by (simp add: lit_def)

subsection \<open>Blank strings\<close>

lemma dropWhile_all: "(\<forall>x\<in>set (dropWhile P xs). P x) = (\<forall>x\<in>set xs. P x)"
proof
  assume a: "\<forall>x\<in>set (dropWhile P xs). P x"
  have "dropWhile P xs = []"
  proof (rule ccontr)
    assume n: "dropWhile P xs \<noteq> []"
    then have "\<not> P (hd (dropWhile P xs))" by (rule hd_dropWhile)
    moreover have "hd (dropWhile P xs) \<in> set (dropWhile P xs)" using n by simp
    ultimately show False using a by blast
  qed
  then show "\<forall>x\<in>set xs. P x" by (simp add: dropWhile_eq_Nil_conv)
next
  assume "\<forall>x\<in>set xs. P x"
  then show "\<forall>x\<in>set (dropWhile P xs). P x" by (meson set_dropWhileD)
qed

text \<open>\<^verbatim>\<open>s.strip() == ""\<close> holds exactly for the strings made of white space only.\<close>

lemma strip_empty_iff: "strip s = [] \<longleftrightarrow> (\<forall>c\<in>set s. isspace c)"
  by (simp add: strip_def dropWhile_all)

subsection \<open>What each method does to the history\<close>

lemma paired_append: "paired xs \<Longrightarrow> paired (xs @ [HumanMessage q, AIMessage a])"
  by (induction xs rule: paired.induct) auto

lemma paired_even: "paired xs \<Longrightarrow> even (length xs)"
  by (induction xs rule: paired.induct) auto

lemma process_pdf_history: "chat_history (snd (process_pdf e p self)) = chat_history self"
  by (simp add: process_pdf_def create_rag_chain_def Let_def split: sum.splits option.splits)

lemma load_existing_history:
  "chat_history (snd (load_existing_vectorstore e self)) = chat_history self"
  by (simp add: load_existing_vectorstore_def create_rag_chain_def Let_def
      split: sum.splits option.splits)

lemma delete_pdf_same: "snd (delete_pdf e p self) = self"
  by (simp add: delete_pdf_def split: sum.splits)

lemma clear_session_state:
  "snd (clear_session e self) =
     self\<lparr>chat_history := [], retriever := None, vectorstore := None, rag_chain := None\<rparr>"
  by (simp add: clear_session_def Let_def split: sum.splits)

lemma ask_question_history:
  "chat_history (snd (ask_question e q self)) = chat_history self \<or>
   (\<exists>a. chat_history (snd (ask_question e q self)) =
      chat_history self @ [HumanMessage q, AIMessage a])"
  by (auto simp: ask_question_def invoke_def add_user_message_def add_ai_message_def Let_def
      split: sum.splits option.splits prod.splits)

text \<open>Only a question that is answered is appended; a failed one leaves the history alone.\<close>

lemma failed_ask_keeps_history:
  "map_of (fst (ask_question e q self)) ''status'' \<noteq> Some (PyStr (lit ''success'')) \<Longrightarrow>
   chat_history (snd (ask_question e q self)) = chat_history self"
  by (auto simp: ask_question_def invoke_def add_user_message_def add_ai_message_def
      error_result_def Let_def split: sum.splits option.splits prod.splits)

lemma answered_ask_appends:
  "map_of (fst (ask_question e q self)) ''status'' = Some (PyStr (lit ''success'')) \<Longrightarrow>
   \<exists>a. fst (ask_question e q self) =
          [(''status'', PyStr (lit ''success'')), (''question'', PyStr q), (''answer'', PyStr a)] \<and>
        chat_history (snd (ask_question e q self)) =
          chat_history self @ [HumanMessage q, AIMessage a]"
  by (auto simp: ask_question_def invoke_def add_user_message_def add_ai_message_def
      error_result_def Let_def split: sum.splits option.splits prod.splits)

lemma exec_history:
  "(c = ClearSession \<and> chat_history (exec e c self) = []) \<or>
   (\<exists>q a. c = AskQuestion q \<and>
      fst (ask_question e q self) =
        [(''status'', PyStr (lit ''success'')), (''question'', PyStr q), (''answer'', PyStr a)] \<and>
      chat_history (exec e c self) = chat_history self @ [HumanMessage q, AIMessage a]) \<or>
   (c \<noteq> ClearSession \<and>
    \<not> (\<exists>q. c = AskQuestion q \<and>
           map_of (fst (ask_question e q self)) ''status'' = Some (PyStr (lit ''success''))) \<and>
    chat_history (exec e c self) = chat_history self)"
proof (cases c)
  case (AskQuestion q)
  show ?thesis
  proof (cases "map_of (fst (ask_question e q self)) ''status'' = Some (PyStr (lit ''success''))")
    case True
    from answered_ask_appends [OF True] AskQuestion show ?thesis by auto
  next
    case False
    from failed_ask_keeps_history [OF False] False AskQuestion show ?thesis by auto
  qed
qed (simp_all add: process_pdf_history load_existing_history delete_pdf_same clear_session_state)

lemma exec_paired: "paired (chat_history self) \<Longrightarrow> paired (chat_history (exec e c self))"
  using exec_history [of c e self] by (auto simp: paired_append)

lemma run_paired: "paired (chat_history self) \<Longrightarrow> paired (chat_history (run cs self))"
  by (induction cs arbitrary: self) (auto simp: exec_paired)

lemma RAGServiceModern_Inr:
  "RAGServiceModern e path model = Inr s \<Longrightarrow> s = new_service path model"
  by (auto simp: RAGServiceModern_def split: if_splits sum.splits)

subsection \<open>The number of documents asked for\<close>

lemma top3_new: "top3 (new_service path model)"
  by (simp add: top3_def new_service_def)

lemma top3_process_pdf: "top3 self \<Longrightarrow> top3 (snd (process_pdf e p self))"
  by (auto simp: top3_def process_pdf_def create_rag_chain_def as_retriever_def Let_def
      split: sum.splits option.splits)

lemma top3_load_existing: "top3 self \<Longrightarrow> top3 (snd (load_existing_vectorstore e self))"
  by (auto simp: top3_def load_existing_vectorstore_def create_rag_chain_def as_retriever_def
      Let_def split: sum.splits option.splits)

lemma top3_ask_question: "top3 self \<Longrightarrow> top3 (snd (ask_question e q self))"
  by (auto simp: top3_def ask_question_def invoke_def add_user_message_def add_ai_message_def
      Let_def split: sum.splits option.splits prod.splits)

lemma top3_exec: "top3 self \<Longrightarrow> top3 (exec e c self)"
  by (cases c)
    (simp_all add: top3_process_pdf top3_load_existing top3_ask_question delete_pdf_same,
      simp add: clear_session_state top3_def)

lemma top3_run: "top3 self \<Longrightarrow> top3 (run cs self)"
  by (induction cs arbitrary: self) (auto simp: top3_exec)

lemma top3_chain:
  "top3 self \<Longrightarrow> rag_chain self = Some ch \<Longrightarrow> search_k (chain_retriever ch) = 3"
  by (simp add: top3_def)

text \<open>A successful answer comes from one search and one invocation of the backend.\<close>

lemma ask_question_success_prompt:
  assumes "ask_question e question self = (result, self')"
      and "map_of result ''status'' = Some (PyStr (lit ''success''))"
  shows "\<exists>ch docs answer.
           rag_chain self = Some ch \<and>
           similarity_search e (store (chain_retriever ch)) question
             (search_k (chain_retriever ch)) = Inr docs \<and>
           llm self' = llm self @ [format_messages (format_docs docs) (chat_history self) question] \<and>
           generate e (format_messages (format_docs docs) (chat_history self) question) = Inr answer \<and>
           map_of result ''answer'' = Some (PyStr answer)"
  using assms
  by (auto simp: ask_question_def invoke_def add_user_message_def add_ai_message_def
      error_result_def Let_def split: sum.splits option.splits prod.splits)

subsection \<open>The index and the pipeline\<close>

lemma index_iff_pipeline_new: "index_iff_pipeline (new_service path model)"
  by (simp add: index_iff_pipeline_def new_service_def)

lemma index_iff_pipeline_load_existing:
  "index_iff_pipeline self \<Longrightarrow> index_iff_pipeline (snd (load_existing_vectorstore e self))"
  by (auto simp: index_iff_pipeline_def load_existing_vectorstore_def create_rag_chain_def Let_def
      split: sum.splits)

lemma index_iff_pipeline_ask_question:
  "index_iff_pipeline self \<Longrightarrow> index_iff_pipeline (snd (ask_question e q self))"
  by (auto simp: index_iff_pipeline_def ask_question_def invoke_def add_user_message_def
      add_ai_message_def Let_def split: sum.splits option.splits prod.splits)

lemma index_iff_pipeline_clear_session: "index_iff_pipeline (snd (clear_session e self))"
  by (simp add: index_iff_pipeline_def clear_session_state)

text \<open>
  \<open>process_pdf\<close> keeps the two together except on one path: the index is built and
  assigned, saving it raises, and there was no pipeline before.
\<close>

lemma index_iff_pipeline_process_pdf:
  assumes "index_iff_pipeline self"
  shows "index_iff_pipeline (snd (process_pdf e p self)) \<or>
         (\<exists>docs vs x. load_pdf e p = Inr docs \<and>
            from_documents e docs (embedding_model self) = Inr vs \<and>
            save_local e vs (vector_db_path self) = Inl x \<and>
            rag_chain self = None)"
  using assms
  by (auto simp: index_iff_pipeline_def process_pdf_def create_rag_chain_def Let_def
      split: sum.splits)

subsection \<open>The handler's responses\<close>

lemma app_ask_question_status:
  "fst (app_ask_question e request svc) = HTTPException code d \<Longrightarrow> code = 400"
  by (auto simp: app_ask_question_def getitem_def split: if_splits prod.splits sum.splits
      option.splits pyval.splits)

lemma app_ask_question_blank_request:
  "\<forall>c\<in>set (request_question request). isspace c \<Longrightarrow>
   app_ask_question e request svc =
     (HTTPException 400 (PyStr (lit ''Question cannot be empty'')), svc)"
  by (simp add: app_ask_question_def strip_empty_iff)

text \<open>\<^verbatim>\<open>format_docs\<close> keeps every document it is given, twice when it is given twice.\<close>

lemma format_docs_keeps_duplicates:
  "format_docs [\<lparr>page_content = lit ''Alpha'', metadata = []\<rparr>,
                \<lparr>page_content = lit ''Alpha'', metadata = []\<rparr>,
                \<lparr>page_content = lit ''Beta'', metadata = []\<rparr>] =
     lit ''Alpha'' @ [0x0A, 0x0A] @ lit ''Alpha'' @ [0x0A, 0x0A] @ lit ''Beta''"
  by (simp add: format_docs_def)

lemma length_join:
  "length (join sep xs) = sum_list (map length xs) + length sep * (length xs - 1)"
  by (induction sep xs rule: join.induct) simp_all

subsection \<open>The concrete session\<close>

lemma fresh_constructed:
  "RAGServiceModern working_env (lit ''vector_db'') (lit ''sentence-transformers/all-MiniLM-L6-v2'') =
     Inr fresh_service"
  by (simp add: RAGServiceModern_def working_env_def fresh_service_def)

lemma fresh_chain: "rag_chain fresh_service = None"
  by (simp add: fresh_service_def new_service_def)

lemma ready_service_eq:
  "ready_service =
     fresh_service\<lparr>vectorstore :=
         Some \<lparr>documents = four_pages, embedding = embedding_model fresh_service\<rparr>,
       retriever :=
         Some (as_retriever \<lparr>documents = four_pages, embedding = embedding_model fresh_service\<rparr> 3),
       rag_chain :=
         Some (RagChain
           (as_retriever \<lparr>documents = four_pages, embedding = embedding_model fresh_service\<rparr> 3))\<rparr>"
  by (simp add: ready_service_def process_pdf_def working_env_def create_rag_chain_def Let_def)

lemma ingest_result:
  "fst (process_pdf working_env (lit ''uploaded_pdfs/doc.pdf'') fresh_service) =
     [(''status'', PyStr (lit ''success'')),
      (''message'', PyStr (lit ''PDF processed successfully. Loaded 4 pages.'')),
      (''num_documents'', PyInt 4)]"
proof -
  have n: "length four_pages = 4" by (simp add: four_pages_def)
  have d: "str_nat 4 = lit ''4''" by code_simp
  show ?thesis
    by (simp add: process_pdf_def working_env_def Let_def n d)
qed

lemma ready_chain:
  "rag_chain ready_service =
     Some (RagChain
       (as_retriever \<lparr>documents = four_pages, embedding = embedding_model fresh_service\<rparr> 3))"
  by (simp add: ready_service_eq)

lemma ready_empty: "chat_history ready_service = []" "llm ready_service = []"
  by (simp_all add: ready_service_eq fresh_service_def new_service_def)

lemma run_ingest:
  "run [(working_env, ProcessPdf (lit ''uploaded_pdfs/doc.pdf''))] fresh_service = ready_service"
  by (simp add: ready_service_def)

lemma ask_ready:
  "ask_question working_env (lit ''What is this about?'') ready_service =
     ([(''status'', PyStr (lit ''success'')), (''question'', PyStr (lit ''What is this about?'')),
       (''answer'', PyStr (lit ''It is about letters.''))],
      ready_service\<lparr>llm :=
          [format_messages (format_docs (take 3 four_pages)) [] (lit ''What is this about?'')],
        chat_history :=
          [HumanMessage (lit ''What is this about?''), AIMessage (lit ''It is about letters.'')]\<rparr>)"
  by (simp add: ready_service_eq ask_question_def invoke_def working_env_def as_retriever_def
      add_user_message_def add_ai_message_def fresh_service_def new_service_def Let_def)

lemma asked_service_history:
  "chat_history (snd (ask_question working_env (lit ''What is this about?'') ready_service)) =
     [HumanMessage (lit ''What is this about?''), AIMessage (lit ''It is about letters.'')]"
  by (simp add: ask_ready)

lemma ready_search:
  "similarity_search backend_down_env
     (store (chain_retriever (RagChain
        (as_retriever \<lparr>documents = four_pages, embedding = embedding_model fresh_service\<rparr> 3))))
     (lit ''What is this about?'')
     (search_k (chain_retriever (RagChain
        (as_retriever \<lparr>documents = four_pages, embedding = embedding_model fresh_service\<rparr> 3)))) =
   Inr (take 3 four_pages)"
  by (simp add: backend_down_env_def working_env_def as_retriever_def)

lemma backend_down_generate: "generate backend_down_env prompt = Inl (lit ''Connection refused'')"
  by (simp add: backend_down_env_def working_env_def)

lemma ask_backend_down:
  "ask_question backend_down_env (lit ''What is this about?'') ready_service =
     ([(''status'', PyStr (lit ''error'')),
       (''message'', PyStr (lit ''Error processing question: Connection refused''))],
      ready_service\<lparr>llm :=
        [format_messages (format_docs (take 3 four_pages)) [] (lit ''What is this about?'')]\<rparr>)"
  by (simp add: ready_service_eq ask_question_def invoke_def backend_down_env_def working_env_def
      as_retriever_def error_result_def fresh_service_def new_service_def Let_def)

section \<open>Asking before a document is ingested\<close>

text \<open>
  C1. While there is no pipeline (\<^verbatim>\<open>rag_chain is None\<close>), \<open>ask_question\<close> answers any
  question, empty or not, with the error result "Please upload and process a PDF first"
  and returns the service as it was: the history is the same, and so is the record of
  the prompts the backend has received, so the backend was not invoked.
\<close>

theorem ask_question_no_document:
  assumes "rag_chain self = None"
  shows "ask_question e question self =
           ([(''status'', PyStr (lit ''error'')),
             (''message'', PyStr (lit ''Please upload and process a PDF first''))], self)"
  using assms by (simp add: ask_question_def error_result_def)

theorem ask_question_no_document_witness:
  "rag_chain fresh_service = None \<and>
   ask_question working_env (lit ''What is this about?'') fresh_service =
     ([(''status'', PyStr (lit ''error'')),
       (''message'', PyStr (lit ''Please upload and process a PDF first''))], fresh_service) \<and>
   chat_history fresh_service = [] \<and> llm fresh_service = []"
  using ask_question_no_document [of fresh_service working_env "lit ''What is this about?''"]
  by (simp add: fresh_service_def new_service_def)

section \<open>The index and the pipeline exist together\<close>

text \<open>
  C2. The claim is that \<open>rag_chain\<close> is set exactly when \<open>vectorstore\<close> is, in the initial
  state and after every operation. It holds initially and is kept by every operation but
  one (the lemmas \<open>index_iff_pipeline_...\<close> above). \<open>process_pdf\<close> assigns
  \<^verbatim>\<open>self.vectorstore\<close> before it saves the index and builds the retriever and the chain
  only afterwards, and its handler restores nothing: on a freshly constructed service,
  a document that loads and indexes while \<^verbatim>\<open>save_local\<close> raises leaves the index set
  and the pipeline missing, and \<open>get_status\<close> reports exactly that.
\<close>

theorem process_pdf_unsaved_index:
  "RAGServiceModern unwritable_env (lit ''vector_db'') (lit ''sentence-transformers/all-MiniLM-L6-v2'') =
     Inr fresh_service \<and>
   index_iff_pipeline fresh_service \<and>
   fst (process_pdf unwritable_env (lit ''uploaded_pdfs/doc.pdf'') fresh_service) =
     [(''status'', PyStr (lit ''error'')),
      (''message'', PyStr (lit ''Error processing PDF: Permission denied''))] \<and>
   vectorstore (snd (process_pdf unwritable_env (lit ''uploaded_pdfs/doc.pdf'') fresh_service)) =
     Some \<lparr>documents = four_pages, embedding = lit ''sentence-transformers/all-MiniLM-L6-v2''\<rparr> \<and>
   rag_chain (snd (process_pdf unwritable_env (lit ''uploaded_pdfs/doc.pdf'') fresh_service)) = None \<and>
   \<not> index_iff_pipeline (snd (process_pdf unwritable_env (lit ''uploaded_pdfs/doc.pdf'') fresh_service)) \<and>
   get_status (snd (process_pdf unwritable_env (lit ''uploaded_pdfs/doc.pdf'') fresh_service)) =
     [(''vectorstore_loaded'', PyBool True), (''retriever_ready'', PyBool False),
      (''qa_chain_ready'', PyBool False), (''chat_history_length'', PyInt 0)]"
  by (simp add: RAGServiceModern_def unwritable_env_def working_env_def fresh_service_def
      new_service_def index_iff_pipeline_def process_pdf_def error_result_def get_status_def Let_def)

section \<open>A successful answer extends the history by one exchange\<close>

text \<open>
  C3. When \<open>ask_question\<close> returns a success result for the question \<open>q\<close>, the history
  afterwards is the history before followed by the human message \<open>q\<close> and then the
  assistant message with the returned answer: it is longer by exactly 2 and its earlier
  entries are unchanged.
\<close>

theorem ask_question_success_history:
  assumes "ask_question e question self = (result, self')"
      and "map_of result ''status'' = Some (PyStr (lit ''success''))"
  shows "\<exists>answer.
           result = [(''status'', PyStr (lit ''success'')), (''question'', PyStr question),
                     (''answer'', PyStr answer)] \<and>
           chat_history self' = chat_history self @ [HumanMessage question, AIMessage answer] \<and>
           length (chat_history self') = length (chat_history self) + 2 \<and>
           take (length (chat_history self)) (chat_history self') = chat_history self"
  using assms
  by (auto simp: ask_question_def invoke_def add_user_message_def add_ai_message_def
      error_result_def Let_def split: sum.splits option.splits prod.splits)

theorem ask_question_success_history_witness:
  "map_of (fst (ask_question working_env (lit ''What is this about?'') ready_service)) ''status'' =
     Some (PyStr (lit ''success'')) \<and>
   chat_history ready_service = [] \<and>
   chat_history (snd (ask_question working_env (lit ''What is this about?'') ready_service)) =
     [HumanMessage (lit ''What is this about?''), AIMessage (lit ''It is about letters.'')]"
proof -
  let ?r = "ask_question working_env (lit ''What is this about?'') ready_service"
  have h1: "?r = (fst ?r, snd ?r)" by simp
  have h2: "map_of (fst ?r) ''status'' = Some (PyStr (lit ''success''))" by (simp add: ask_ready)
  from ask_question_success_history [OF h1 h2] obtain answer where
    a: "fst ?r = [(''status'', PyStr (lit ''success'')), (''question'', PyStr (lit ''What is this about?'')),
                  (''answer'', PyStr answer)]"
    and b: "chat_history (snd ?r) =
              chat_history ready_service @ [HumanMessage (lit ''What is this about?''), AIMessage answer]"
    by blast
  from a have "answer = lit ''It is about letters.''" by (simp add: ask_ready)
  with b h2 show ?thesis by (simp add: ready_empty)
qed

section \<open>Blank questions\<close>

text \<open>
  C4. Every question that is empty or consists of white space only is rejected by
  \<^verbatim>\<open>POST /ask\<close> as a client error, with a status between 400 and 499, and the service is
  returned untouched: the service's \<open>ask_question\<close> is not called, so neither the index
  nor the history nor the backend is used, and the answer is the same whether or not a
  document has been ingested. The empty question fails the validation of the request
  (\<^verbatim>\<open>min_length=1\<close>, status 422) and never reaches the handler; a question of white space
  only reaches it and the handler raises \<^verbatim>\<open>HTTPException(400, "Question cannot be empty")\<close>
  before anything else.
\<close>

theorem post_ask_blank:
  assumes "\<forall>c\<in>set q. isspace c"
  shows "post_ask e q svc =
           (if q = [] then RequestValidationError
            else HTTPException 400 (PyStr (lit ''Question cannot be empty'')), svc) \<and>
         400 \<le> status_code (fst (post_ask e q svc)) \<and>
         status_code (fst (post_ask e q svc)) < 500 \<and>
         chat_history (snd (post_ask e q svc)) = chat_history svc"
proof (cases "q = []")
  case True
  then show ?thesis by (simp add: post_ask_def parse_QuestionRequest_def)
next
  case False
  then have p: "parse_QuestionRequest q = Some \<lparr>request_question = q\<rparr>"
    by (cases q) (simp_all add: parse_QuestionRequest_def)
  have "app_ask_question e \<lparr>request_question = q\<rparr> svc =
          (HTTPException 400 (PyStr (lit ''Question cannot be empty'')), svc)"
    using assms by (simp add: app_ask_question_blank_request)
  with False p show ?thesis by (simp add: post_ask_def)
qed

theorem post_ask_blank_witness:
  "list_all isspace [0x20, 0x09, 0x0A, 0x2003, 0x3000] \<and>
   post_ask working_env [0x20, 0x09, 0x0A, 0x2003, 0x3000] fresh_service =
     (HTTPException 400 (PyStr (lit ''Question cannot be empty'')), fresh_service) \<and>
   post_ask working_env [] ready_service = (RequestValidationError, ready_service) \<and>
   rag_chain fresh_service = None"
proof -
  have h: "\<forall>c\<in>set [0x20, 0x09, 0x0A, 0x2003, 0x3000]. isspace c"
    by (simp add: isspace_def)
  have h0: "\<forall>c\<in>set ([] :: pystr). isspace c" by simp
  show ?thesis
    using h post_ask_blank [OF h, of working_env fresh_service]
      post_ask_blank [OF h0, of working_env ready_service] fresh_chain
    by (simp add: list_all_iff)
qed

section \<open>A failing backend\<close>

text \<open>
  C5. When the pipeline exists, the search succeeds and the generation backend raises,
  \<open>ask_question\<close> returns the error result "Error processing question: ..." with the
  exception's text instead of raising, and the history is unchanged; only the backend's
  record shows the prompt it was given.
\<close>

theorem ask_question_generation_failure:
  assumes "rag_chain self = Some ch"
      and "similarity_search e (store (chain_retriever ch)) question
             (search_k (chain_retriever ch)) = Inr docs"
      and "generate e (format_messages (format_docs docs) (chat_history self) question) = Inl x"
  shows "ask_question e question self =
           ([(''status'', PyStr (lit ''error'')),
             (''message'', PyStr (lit ''Error processing question: '' @ x))],
            self\<lparr>llm := llm self @
              [format_messages (format_docs docs) (chat_history self) question]\<rparr>) \<and>
         chat_history (snd (ask_question e question self)) = chat_history self"
  using assms by (simp add: ask_question_def invoke_def error_result_def Let_def)

theorem ask_question_generation_failure_witness:
  "ask_question backend_down_env (lit ''What is this about?'') ready_service =
     ([(''status'', PyStr (lit ''error'')),
       (''message'', PyStr (lit ''Error processing question: Connection refused''))],
      ready_service\<lparr>llm :=
        [format_messages (format_docs (take 3 four_pages)) [] (lit ''What is this about?'')]\<rparr>) \<and>
   chat_history (snd (ask_question backend_down_env (lit ''What is this about?'') ready_service)) =
     chat_history ready_service"
  using ask_question_generation_failure [OF ready_chain ready_search backend_down_generate]
  by (simp add: ready_empty)

section \<open>Clearing the session\<close>

text \<open>
  C6. \<open>clear_session\<close> is idempotent on the service's state: clearing twice, in any two
  environments and whatever the file system answers, leaves the state that clearing
  once leaves. After it \<open>get_status\<close> reports no index, no retriever, no pipeline and a
  history of length 0, for any prior state.
\<close>

theorem clear_session_idempotent:
  "snd (clear_session e2 (snd (clear_session e1 self))) = snd (clear_session e1 self) \<and>
   get_status (snd (clear_session e1 self)) =
     [(''vectorstore_loaded'', PyBool False), (''retriever_ready'', PyBool False),
      (''qa_chain_ready'', PyBool False), (''chat_history_length'', PyInt 0)]"
  by (simp add: clear_session_state get_status_def)

section \<open>Ingesting keeps the conversation\<close>

text \<open>
  C7. When \<open>process_pdf\<close> returns a success result, the history is the one from before
  the call, while the index, the retriever and the pipeline are the ones built from the
  new document.
\<close>

theorem process_pdf_keeps_history:
  assumes "process_pdf e pdf_path self = (result, self')"
      and "map_of result ''status'' = Some (PyStr (lit ''success''))"
  shows "chat_history self' = chat_history self \<and>
         (\<exists>docs vs. load_pdf e pdf_path = Inr docs \<and>
            from_documents e docs (embedding_model self) = Inr vs \<and>
            vectorstore self' = Some vs \<and>
            retriever self' = Some (as_retriever vs 3) \<and>
            rag_chain self' = Some (RagChain (as_retriever vs 3)))"
  using assms
  by (auto simp: process_pdf_def create_rag_chain_def error_result_def Let_def
      split: sum.splits)

theorem process_pdf_keeps_history_witness:
  "map_of (fst (process_pdf working_env (lit ''uploaded_pdfs/second.pdf'')
       (snd (ask_question working_env (lit ''What is this about?'') ready_service)))) ''status'' =
     Some (PyStr (lit ''success'')) \<and>
   chat_history (snd (process_pdf working_env (lit ''uploaded_pdfs/second.pdf'')
       (snd (ask_question working_env (lit ''What is this about?'') ready_service)))) =
     [HumanMessage (lit ''What is this about?''), AIMessage (lit ''It is about letters.'')]"
proof -
  let ?s = "snd (ask_question working_env (lit ''What is this about?'') ready_service)"
  let ?r = "process_pdf working_env (lit ''uploaded_pdfs/second.pdf'') ?s"
  have h1: "?r = (fst ?r, snd ?r)" by simp
  have h2: "map_of (fst ?r) ''status'' = Some (PyStr (lit ''success''))"
    by (simp add: process_pdf_def working_env_def Let_def)
  show ?thesis
    using process_pdf_keeps_history [OF h1 h2] h2 by (simp add: asked_service_history)
qed

section \<open>Retrieval and the context of the prompt\<close>

text \<open>
  C8. In every state a constructed service can reach, a question that is answered is
  answered from one search of the chain's retriever for the top 3 documents, with the
  question itself as the query; the prompt the backend receives starts with the system
  message whose context is the page contents of exactly the documents returned, in the
  order returned, joined by two newlines, followed by the history and the question.
\<close>

theorem answered_question_context:
  assumes "RAGServiceModern e0 path model = Inr s0"
      and "ask_question e question (run cs s0) = (result, self')"
      and "map_of result ''status'' = Some (PyStr (lit ''success''))"
  shows "\<exists>ch docs answer.
           rag_chain (run cs s0) = Some ch \<and>
           search_k (chain_retriever ch) = 3 \<and>
           similarity_search e (store (chain_retriever ch)) question 3 = Inr docs \<and>
           llm self' = llm (run cs s0) @
             [[SystemMessage (system_template @ join [0x0A, 0x0A] (map page_content docs))] @
              chat_history (run cs s0) @ [HumanMessage question]] \<and>
           generate e
             ([SystemMessage (system_template @ join [0x0A, 0x0A] (map page_content docs))] @
              chat_history (run cs s0) @ [HumanMessage question]) = Inr answer \<and>
           map_of result ''answer'' = Some (PyStr answer)"
proof -
  have "s0 = new_service path model" using assms(1) by (rule RAGServiceModern_Inr)
  then have t: "top3 (run cs s0)" by (simp add: top3_new top3_run)
  from ask_question_success_prompt [OF assms(2,3)] obtain ch docs answer where
    c: "rag_chain (run cs s0) = Some ch"
    and d: "similarity_search e (store (chain_retriever ch)) question
              (search_k (chain_retriever ch)) = Inr docs"
    and l: "llm self' = llm (run cs s0) @
              [format_messages (format_docs docs) (chat_history (run cs s0)) question]"
    and g: "generate e (format_messages (format_docs docs) (chat_history (run cs s0)) question) =
              Inr answer"
    and a: "map_of result ''answer'' = Some (PyStr answer)"
    by blast
  have k: "search_k (chain_retriever ch) = 3" using t c by (rule top3_chain)
  show ?thesis
    using c d l g a k by (simp add: format_messages_def format_docs_def)
qed

theorem answered_question_context_witness:
  "RAGServiceModern working_env (lit ''vector_db'') (lit ''sentence-transformers/all-MiniLM-L6-v2'') =
     Inr fresh_service \<and>
   map_of (fst (ask_question working_env (lit ''What is this about?'')
       (run [(working_env, ProcessPdf (lit ''uploaded_pdfs/doc.pdf''))] fresh_service))) ''status'' =
     Some (PyStr (lit ''success'')) \<and>
   llm (snd (ask_question working_env (lit ''What is this about?'')
       (run [(working_env, ProcessPdf (lit ''uploaded_pdfs/doc.pdf''))] fresh_service))) =
     [[SystemMessage (system_template @ lit ''Alpha'' @ [0x0A, 0x0A] @ lit ''Beta'' @
         [0x0A, 0x0A] @ lit ''Gamma''),
       HumanMessage (lit ''What is this about?'')]]"
proof -
  let ?s = "run [(working_env, ProcessPdf (lit ''uploaded_pdfs/doc.pdf''))] fresh_service"
  let ?r = "ask_question working_env (lit ''What is this about?'') ?s"
  have h1: "?r = (fst ?r, snd ?r)" by simp
  have h2: "map_of (fst ?r) ''status'' = Some (PyStr (lit ''success''))"
    unfolding run_ingest by (simp add: ask_ready)
  from answered_question_context [OF fresh_constructed h1 h2] obtain ch docs where
    c: "rag_chain ?s = Some ch"
    and d: "similarity_search working_env (store (chain_retriever ch)) (lit ''What is this about?'') 3 =
              Inr docs"
    and l: "llm (snd ?r) = llm ?s @
             [[SystemMessage (system_template @ join [0x0A, 0x0A] (map page_content docs))] @
              chat_history ?s @ [HumanMessage (lit ''What is this about?'')]]"
    by blast
  from c have "ch = RagChain
      (as_retriever \<lparr>documents = four_pages, embedding = embedding_model fresh_service\<rparr> 3)"
    unfolding run_ingest by (simp add: ready_chain)
  with d have "docs = take 3 four_pages"
    by (simp add: working_env_def as_retriever_def)
  then have j: "join [0x0A, 0x0A] (map page_content docs) =
      lit ''Alpha'' @ [0x0A, 0x0A] @ lit ''Beta'' @ [0x0A, 0x0A] @ lit ''Gamma''"
    by (simp add: four_pages_def)
  show ?thesis
    using fresh_constructed h2 l unfolding run_ingest by (simp add: j ready_empty)
qed

section \<open>Status codes of the /ask handler\<close>

text \<open>
  C9. The claim is that the \<^verbatim>\<open>/ask\<close> operation answers 400 for invalid input and unmet
  preconditions and 500 for failures of the backend. The handler raises
  \<^verbatim>\<open>HTTPException(status_code=400)\<close> for every error result of the service
  (\<open>app_ask_question_status\<close> above: it never raises another code), so with a document
  ingested and the backend refusing the connection the response is 400, not 500.
\<close>

theorem app_ask_question_backend_failure:
  "app_ask_question backend_down_env \<lparr>request_question = lit ''What is this about?''\<rparr> ready_service =
     (HTTPException 400 (PyStr (lit ''Error processing question: Connection refused'')),
      ready_service\<lparr>llm :=
        [format_messages (format_docs (take 3 four_pages)) [] (lit ''What is this about?'')]\<rparr>)"
proof -
  have b: "strip (lit ''What is this about?'') \<noteq> []"
    by (simp add: strip_empty_iff lit_def isspace_def)
  show ?thesis
    by (simp add: app_ask_question_def ask_backend_down b getitem_def)
qed

section \<open>The shape of the history\<close>

text \<open>
  C10. In every state a constructed service can reach by its public methods, the
  history has even length and consists of exchanges, each a human message followed by an
  assistant message. A call changes the history in two ways only: \<open>clear_session\<close>
  empties it, and an \<open>ask_question\<close> that returns a success result appends the question
  and the returned answer. Every other call, a failed \<open>ask_question\<close> among them, leaves
  it as it was.
\<close>

theorem history_alternates:
  assumes "RAGServiceModern e0 path model = Inr s0"
  shows "paired (chat_history (run cs s0)) \<and>
         even (length (chat_history (run cs s0))) \<and>
         ((c = ClearSession \<and> chat_history (exec e c self) = []) \<or>
          (\<exists>q a. c = AskQuestion q \<and>
             fst (ask_question e q self) =
               [(''status'', PyStr (lit ''success'')), (''question'', PyStr q),
                (''answer'', PyStr a)] \<and>
             chat_history (exec e c self) = chat_history self @ [HumanMessage q, AIMessage a]) \<or>
          (c \<noteq> ClearSession \<and>
           \<not> (\<exists>q. c = AskQuestion q \<and>
                  map_of (fst (ask_question e q self)) ''status'' =
                    Some (PyStr (lit ''success''))) \<and>
           chat_history (exec e c self) = chat_history self))"
proof -
  have "s0 = new_service path model" using assms by (rule RAGServiceModern_Inr)
  then have "paired (chat_history s0)" by (simp add: new_service_def)
  then have p: "paired (chat_history (run cs s0))" by (rule run_paired)
  then have "even (length (chat_history (run cs s0)))" by (rule paired_even)
  with p exec_history [of c e self] show ?thesis by blast
qed

theorem history_alternates_witness:
  "RAGServiceModern working_env (lit ''vector_db'') (lit ''sentence-transformers/all-MiniLM-L6-v2'') =
     Inr fresh_service \<and>
   chat_history (run [(working_env, ProcessPdf (lit ''uploaded_pdfs/doc.pdf'')),
                      (working_env, AskQuestion (lit ''What is this about?''))] fresh_service) =
     [HumanMessage (lit ''What is this about?''), AIMessage (lit ''It is about letters.'')] \<and>
   paired (chat_history (run [(working_env, ProcessPdf (lit ''uploaded_pdfs/doc.pdf'')),
                      (working_env, AskQuestion (lit ''What is this about?''))] fresh_service)) \<and>
   even (length (chat_history (run [(working_env, ProcessPdf (lit ''uploaded_pdfs/doc.pdf'')),
                      (working_env, AskQuestion (lit ''What is this about?''))] fresh_service))) \<and>
   chat_history (exec backend_down_env (AskQuestion (lit ''What is this about?'')) ready_service) =
     chat_history ready_service"
proof -
  let ?cs = "[(working_env, ProcessPdf (lit ''uploaded_pdfs/doc.pdf'')),
              (working_env, AskQuestion (lit ''What is this about?''))]"
  have r: "chat_history (run ?cs fresh_service) =
     [HumanMessage (lit ''What is this about?''), AIMessage (lit ''It is about letters.'')]"
    by (simp add: ready_service_def [symmetric] asked_service_history)
  have f: "\<not> (\<exists>a. fst (ask_question backend_down_env (lit ''What is this about?'') ready_service) =
             [(''status'', PyStr (lit ''success'')), (''question'', PyStr (lit ''What is this about?'')),
              (''answer'', PyStr a)])"
    by (simp add: ask_backend_down)
  from history_alternates [OF fresh_constructed, of ?cs
      "AskQuestion (lit ''What is this about?'')" backend_down_env ready_service]
  have p: "paired (chat_history (run ?cs fresh_service))"
    and v: "even (length (chat_history (run ?cs fresh_service)))"
    and k: "chat_history (exec backend_down_env (AskQuestion (lit ''What is this about?'')) ready_service) =
              chat_history ready_service"
    using f by auto
  show ?thesis using fresh_constructed r p v k by blast
qed

end
